theory Spec2Isabelle
  imports Complex_Main "HOL-Library.Sublist"
begin

section \<open>Values and errors of the Python code\<close>

text \<open>
  The backend is Python. A Python \<open>float\<close> is modelled as a \<open>real\<close>: finite values with
  exact arithmetic, so rounding, overflow and the sign of zero are outside the model.
  A Python \<open>int\<close> is an \<open>int\<close>. Every exception the modelled code can raise is a
  value of \<open>py_error\<close>, and a function that can raise returns \<open>py_error + 'a\<close>.
\<close>

datatype py_error = KeyError | IndexError | ZeroDivisionError

section \<open>Market configuration (backend/app/config.py)\<close>

record MarketConfig =
  commission_rate :: real
  min_commission :: real
  slippage_daily :: real
  slippage_hourly :: real
  min_order_amount :: real
  currency :: string
  trading_days_per_year :: int

definition KR_config :: MarketConfig where
  "KR_config = \<lparr>commission_rate = 15 / 100000, min_commission = 0,
     slippage_daily = 1 / 1000, slippage_hourly = 5 / 10000,
     min_order_amount = 100000, currency = ''KRW'', trading_days_per_year = 245\<rparr>"

definition US_config :: MarketConfig where
  "US_config = \<lparr>commission_rate = 25 / 10000, min_commission = 1,
     slippage_daily = 1 / 1000, slippage_hourly = 5 / 10000,
     min_order_amount = 100, currency = ''USD'', trading_days_per_year = 252\<rparr>"

text \<open>The dictionary \<open>MARKET_CONFIGS\<close>: two keys, every other key is absent.\<close>

definition MARKET_CONFIGS :: "string \<Rightarrow> MarketConfig option" where
  "MARKET_CONFIGS market =
     (if market = ''KR'' then Some KR_config
      else if market = ''US'' then Some US_config
      else None)"

section \<open>Broker (backend/app/engine/broker.py)\<close>

datatype TimeframeType = H1 | D1

record Broker =
  config :: MarketConfig
  timeframe :: TimeframeType



text \<open>\<open>Broker.__init__\<close>: the lookup \<open>MARKET_CONFIGS[market]\<close> raises KeyError on an
  unknown market.\<close>

definition Broker_init :: "string \<Rightarrow> TimeframeType \<Rightarrow> py_error + Broker" where
  "Broker_init market tf =
     (case MARKET_CONFIGS market of
        None \<Rightarrow> Inl KeyError
      | Some c \<Rightarrow> Inr \<lparr>config = c, timeframe = tf\<rparr>)"

definition get_slippage :: "Broker \<Rightarrow> real" where
  "get_slippage b =
     (if timeframe b = D1 then slippage_daily (config b)
      else slippage_hourly (config b))"

definition calculate_fill_price :: "Broker \<Rightarrow> real \<Rightarrow> string \<Rightarrow> real" where
  "calculate_fill_price b next_open side =
     (let slippage = get_slippage b in
      if side = ''BUY'' then next_open * (1 + slippage)
      else next_open * (1 - slippage))"

definition calculate_commission :: "Broker \<Rightarrow> real \<Rightarrow> int \<Rightarrow> real" where
  "calculate_commission b fill_price quantity =
     (let raw = fill_price * real_of_int quantity * commission_rate (config b)
      in max raw (min_commission (config b)))"



section \<open>Values of NumPy and pandas\<close>

text \<open>
  NumPy and pandas compute on IEEE doubles and do not raise on a division by zero or on
  an empty input: they return an infinity or NaN. A double is modelled as a finite
  \<open>real\<close> (exact arithmetic, as above) or one of the three special values, and the
  operations follow IEEE 754 on the special values. A zero divisor is taken as \<open>+0.0\<close>.
\<close>

datatype float64 = Num real | PInf | NInf | NaN

fun np_neg :: "float64 \<Rightarrow> float64" where
  "np_neg (Num a) = Num (- a)"
| "np_neg PInf = NInf"
| "np_neg NInf = PInf"
| "np_neg NaN = NaN"

fun np_add :: "float64 \<Rightarrow> float64 \<Rightarrow> float64" where
  "np_add NaN y = NaN"
| "np_add x NaN = NaN"
| "np_add (Num a) (Num b) = Num (a + b)"
| "np_add PInf NInf = NaN"
| "np_add NInf PInf = NaN"
| "np_add PInf y = PInf"
| "np_add x PInf = PInf"
| "np_add NInf y = NInf"
| "np_add x NInf = NInf"

definition np_sub :: "float64 \<Rightarrow> float64 \<Rightarrow> float64" where
  "np_sub x y = np_add x (np_neg y)"

text \<open>The sign of a double that is not NaN: 1, 0 or -1.\<close>

fun np_sign :: "float64 \<Rightarrow> int" where
  "np_sign (Num a) = (if 0 < a then 1 else if a < 0 then - 1 else 0)"
| "np_sign PInf = 1"
| "np_sign NInf = - 1"
| "np_sign NaN = 0"

definition signed_inf :: "int \<Rightarrow> float64" where
  "signed_inf s = (if 0 < s then PInf else if s < 0 then NInf else NaN)"

fun np_mul :: "float64 \<Rightarrow> float64 \<Rightarrow> float64" where
  "np_mul NaN y = NaN"
| "np_mul x NaN = NaN"
| "np_mul (Num a) (Num b) = Num (a * b)"
| "np_mul x y = signed_inf (np_sign x * np_sign y)"

fun np_div :: "float64 \<Rightarrow> float64 \<Rightarrow> float64" where
  "np_div NaN y = NaN"
| "np_div x NaN = NaN"
| "np_div (Num a) (Num b) = (if b \<noteq> 0 then Num (a / b) else signed_inf (np_sign (Num a)))"
| "np_div (Num a) y = Num 0"
| "np_div x (Num b) = signed_inf (np_sign x * (if b < 0 then - 1 else 1))"
| "np_div x y = NaN"

fun np_sqrt :: "float64 \<Rightarrow> float64" where
  "np_sqrt (Num a) = (if 0 \<le> a then Num (sqrt a) else NaN)"
| "np_sqrt PInf = PInf"
| "np_sqrt NInf = NaN"
| "np_sqrt NaN = NaN"

text \<open>Comparisons: every comparison with NaN is false.\<close>

fun np_lt :: "float64 \<Rightarrow> float64 \<Rightarrow> bool" where
  "np_lt NaN y = False"
| "np_lt x NaN = False"
| "np_lt (Num a) (Num b) = (a < b)"
| "np_lt x PInf = (x \<noteq> PInf)"
| "np_lt NInf y = (y \<noteq> NInf)"
| "np_lt x y = False"


text \<open>\<open>x ** e\<close> for a double \<open>x\<close> and a finite exponent \<open>e\<close>: a negative base has a
  power only for an integer exponent, and is NaN otherwise.\<close>

definition is_integer :: "real \<Rightarrow> bool" where
  "is_integer e = (e = real_of_int \<lfloor>e\<rfloor>)"

fun np_power :: "float64 \<Rightarrow> real \<Rightarrow> float64" where
  "np_power (Num b) e =
     (if e = 0 then Num 1
      else if 0 < b then Num (b powr e)
      else if b = 0 then (if 0 < e then Num 0 else PInf)
      else if is_integer e then Num (b powi \<lfloor>e\<rfloor>)
      else NaN)"
| "np_power PInf e = (if e = 0 then Num 1 else if 0 < e then PInf else Num 0)"
| "np_power NInf e =
     (if e = 0 then Num 1
      else if 0 < e then (if is_integer e \<and> odd \<lfloor>e\<rfloor> then NInf else PInf)
      else Num 0)"
| "np_power NaN e = (if e = 0 then Num 1 else NaN)"

text \<open>Reductions of a pandas Series (\<open>skipna=True\<close>): missing values are dropped first;
  the sum of nothing is 0, the mean of nothing is NaN, and the standard deviation is the
  sample one (\<open>ddof=1\<close>), NaN on fewer than two values.\<close>

definition dropna :: "float64 list \<Rightarrow> float64 list" where
  "dropna xs = filter (\<lambda>x. x \<noteq> NaN) xs"

primrec np_sum :: "float64 list \<Rightarrow> float64" where
  "np_sum [] = Num 0"
| "np_sum (x # xs) = np_add x (np_sum xs)"

definition pd_mean :: "float64 list \<Rightarrow> float64" where
  "pd_mean xs =
     (let ys = dropna xs
      in if ys = [] then NaN else np_div (np_sum ys) (Num (real (length ys))))"

definition pd_std :: "float64 list \<Rightarrow> float64" where
  "pd_std xs =
     (let ys = dropna xs
      in if length ys < 2 then NaN
         else (let avg = np_div (np_sum ys) (Num (real (length ys)));
                   sqr = map (\<lambda>y. np_mul (np_sub avg y) (np_sub avg y)) ys
               in np_sqrt (np_div (np_sum sqr) (Num (real (length ys - 1))))))"

text \<open>\<open>Series.pct_change()\<close>: the first entry is missing, entry \<open>i\<close> is
  \<open>x[i] / x[i-1] - 1\<close>. \<open>Series.fillna(v)\<close> replaces the missing entries.\<close>

definition pct_change :: "real list \<Rightarrow> float64 list" where
  "pct_change xs =
     (case xs of
        [] \<Rightarrow> []
      | x # rest \<Rightarrow>
          NaN # map (\<lambda>(prev, cur). np_sub (np_div (Num cur) (Num prev)) (Num 1)) (zip xs rest))"

definition fillna :: "real \<Rightarrow> float64 list \<Rightarrow> float64 list" where
  "fillna v xs = map (\<lambda>x. if x = NaN then Num v else x) xs"



section \<open>PerformanceMetrics (backend/app/analytics/performance.py)\<close>

text \<open>The equity curve is a Series of finite values. The trade ledger is a DataFrame
  whose column \<open>pnl\<close> is nullable: \<open>None\<close> is a missing value, which every comparison
  rejects and every sum skips.\<close>

record Trade =
  trade_symbol :: string
  trade_quantity :: int
  pnl :: "real option"

definition calculate_returns :: "real list \<Rightarrow> float64 list" where
  "calculate_returns equity_curve = fillna 0 (pct_change equity_curve)"

text \<open>\<open>iloc[-1]\<close> and \<open>iloc[0]\<close> raise IndexError on an empty Series.\<close>

definition total_return :: "real list \<Rightarrow> py_error + float64" where
  "total_return equity_curve =
     (if equity_curve = [] then Inl IndexError
      else Inr (np_sub (np_div (Num (last equity_curve)) (Num (hd equity_curve))) (Num 1)))"

text \<open>\<open>annual_return\<close>: the statements in the order of the source. The division
  \<open>total_days / trading_days\<close> is Python's and raises on a zero divisor; the call of
  \<open>total_return\<close> comes before the test \<open>years <= 0\<close>.\<close>

definition annual_return :: "real list \<Rightarrow> int \<Rightarrow> py_error + float64" where
  "annual_return equity_curve trading_days =
     (let total_days = length equity_curve
      in if trading_days = 0 then Inl ZeroDivisionError
         else (let years = real total_days / real_of_int trading_days
               in case total_return equity_curve of
                    Inl err \<Rightarrow> Inl err
                  | Inr total_ret \<Rightarrow>
                      if years \<le> 0 then Inr (Num 0)
                      else Inr (np_sub (np_power (np_add (Num 1) total_ret) (1 / years))
                                  (Num 1))))"

definition sharpe_ratio :: "real list \<Rightarrow> real \<Rightarrow> int \<Rightarrow> py_error + float64" where
  "sharpe_ratio equity_curve risk_free_rate trading_days =
     (let returns = calculate_returns equity_curve
      in if trading_days = 0 then Inl ZeroDivisionError
         else (let excess = map (\<lambda>r. np_sub r (Num (risk_free_rate / real_of_int trading_days)))
                              returns
               in if pd_std returns = Num 0 then Inr (Num 0)
                  else Inr (np_div (np_mul (np_sqrt (Num (real_of_int trading_days)))
                                      (pd_mean excess))
                              (pd_std returns))))"

definition sortino_ratio :: "real list \<Rightarrow> real \<Rightarrow> int \<Rightarrow> py_error + float64" where
  "sortino_ratio equity_curve risk_free_rate trading_days =
     (let returns = calculate_returns equity_curve
      in if trading_days = 0 then Inl ZeroDivisionError
         else (let excess = map (\<lambda>r. np_sub r (Num (risk_free_rate / real_of_int trading_days)))
                              returns;
                   downside = filter (\<lambda>r. np_lt r (Num 0)) returns
               in if length downside = 0 \<or> pd_std downside = Num 0 then Inr (Num 0)
                  else Inr (np_div (np_mul (np_sqrt (Num (real_of_int trading_days)))
                                      (pd_mean excess))
                              (pd_std downside))))"

text \<open>The column \<open>pnl\<close> restricted by a comparison: the rows whose value is present and
  satisfies it.\<close>

definition pnl_where :: "(real \<Rightarrow> bool) \<Rightarrow> Trade list \<Rightarrow> real list" where
  "pnl_where c trades =
     concat (map (\<lambda>t. case pnl t of None \<Rightarrow> [] | Some p \<Rightarrow> if c p then [p] else []) trades)"

definition profit_factor :: "Trade list \<Rightarrow> float64" where
  "profit_factor trades =
     (if length trades = 0 then Num 0
      else (let gross_profit = sum_list (pnl_where (\<lambda>p. 0 < p) trades);
                gross_loss = \<bar>sum_list (pnl_where (\<lambda>p. p < 0) trades)\<bar>
            in if gross_loss = 0 then (if 0 < gross_profit then PInf else Num 0)
               else Num (gross_profit / gross_loss)))"

text \<open>\<open>max_consecutive\<close>: the Boolean column \<open>results\<close>, then the loop over it with the
  two counters \<open>max_streak\<close> and \<open>current\<close>.\<close>

definition streak_result :: "bool \<Rightarrow> Trade \<Rightarrow> bool" where
  "streak_result win t =
     (case pnl t of
        None \<Rightarrow> False
      | Some p \<Rightarrow> if win then 0 < p else p \<le> 0)"

fun streak_loop :: "bool list \<Rightarrow> nat \<Rightarrow> nat \<Rightarrow> nat" where
  "streak_loop [] max_streak current = max_streak"
| "streak_loop (r # rs) max_streak current =
     (if r then streak_loop rs (max max_streak (current + 1)) (current + 1)
      else streak_loop rs max_streak 0)"

definition max_consecutive :: "Trade list \<Rightarrow> bool \<Rightarrow> nat" where
  "max_consecutive trades win =
     (if length trades = 0 then 0
      else streak_loop (map (streak_result win) trades) 0 0)"

section \<open>Strategy (backend/app/strategies/base.py, mean_reversion.py)\<close>

datatype OrderSide = BUY | SELL

text \<open>The text of \<open>reason\<close> is an f-string of the z-score and of a threshold; the model
  keeps the two numbers and which of the two texts it is.\<close>

datatype order_reason = Z_below_entry float64 real | Z_above_exit float64 real

record PendingOrder =
  symbol :: string
  side :: OrderSide
  weight :: real
  reason :: "order_reason option"









record parameters =
  lookback_period :: int
  entry_threshold :: real
  exit_threshold :: real
  position_weight :: real

definition default_parameters :: parameters where
  "default_parameters = \<lparr>lookback_period = 20, entry_threshold = 2,
     exit_threshold = 5 / 10, position_weight = 3 / 10\<rparr>"




section \<open>The frontend API client (frontend/lib/api-client.ts)\<close>

text \<open>\<open>getBacktest\<close> maps the points \<open>{timestamp, equity, cash}\<close> of the response to
  \<open>{date, equity, drawdown}\<close>. \<open>Number(p.equity)\<close> is modelled for a finite number. The
  callback of \<open>map\<close> updates the variable \<open>peak\<close> of the enclosing scope, which the model
  threads through the list.\<close>

record RawPoint =
  timestamp :: string
  raw_equity :: real
  raw_cash :: real

record EquityCurvePoint =
  date :: string
  equity :: real
  drawdown :: real

fun map_points :: "real \<Rightarrow> RawPoint list \<Rightarrow> EquityCurvePoint list" where
  "map_points peak [] = []"
| "map_points peak (p # ps) =
     (let equity = raw_equity p;
          peak = (if equity > peak then equity else peak);
          drawdown = (if peak > 0 then (equity - peak) / peak else 0)
      in \<lparr>date = timestamp p, equity = equity, drawdown = drawdown\<rparr> # map_points peak ps)"

definition getBacktest_equity_curve :: "RawPoint list \<Rightarrow> EquityCurvePoint list" where
  "getBacktest_equity_curve equity_curve_data =
     (case equity_curve_data of
        [] \<Rightarrow> []
      | p0 # _ \<Rightarrow> map_points (raw_equity p0) equity_curve_data)"

section \<open>Notions used in the statements\<close>





section \<open>Example inputs\<close>






definition example_trade :: "real option \<Rightarrow> Trade" where
  "example_trade p = \<lparr>trade_symbol = ''A'', trade_quantity = 1, pnl = p\<rparr>"

definition example_point :: "real \<Rightarrow> RawPoint" where
  "example_point e = \<lparr>timestamp = ''2024-01-02'', raw_equity = e, raw_cash = 0\<rparr>"

section \<open>Properties of the Broker\<close>







text \<open>
  Claim C3. \<open>calculate_commission\<close> is the larger of \<open>fill_price * quantity *
  commission_rate\<close> and \<open>min_commission\<close>, for every fill price and quantity; for a broker
  of the US market an order with \<open>fill_price * quantity * 0.0025 < 1\<close> pays exactly 1.
\<close>

theorem calculate_commission_spec:
  "calculate_commission b fill_price quantity =
     max (fill_price * real_of_int quantity * commission_rate (config b)) (min_commission (config b))
   \<and> (Broker_init ''US'' tf = Inr b
        \<and> fill_price * real_of_int quantity * (25 / 10000) < 1
      \<longrightarrow> calculate_commission b fill_price quantity = 1)"
  by (auto simp: calculate_commission_def Broker_init_def MARKET_CONFIGS_def US_config_def)

theorem calculate_commission_spec_witness:
  "Broker_init ''US'' D1 = Inr \<lparr>config = US_config, timeframe = D1\<rparr>
   \<and> (10::real) * real_of_int 3 * (25 / 10000) < 1
   \<and> calculate_commission \<lparr>config = US_config, timeframe = D1\<rparr> 10 3 = 1"
  using calculate_commission_spec [of "\<lparr>config = US_config, timeframe = D1\<rparr>" 10 3 D1]
  by (simp add: Broker_init_def MARKET_CONFIGS_def)

section \<open>Properties of PerformanceMetrics\<close>

subsection \<open>annual_return\<close>

lemma annual_return_formula:
  assumes "equity_curve \<noteq> []" "hd equity_curve \<noteq> 0"
    and "0 \<le> last equity_curve / hd equity_curve" "0 < trading_days"
  shows "annual_return equity_curve trading_days =
     Inr (Num ((1 + (last equity_curve / hd equity_curve - 1))
                 powr (real_of_int trading_days / real (length equity_curve)) - 1))"
proof -
  let ?n = "real (length equity_curve)" and ?t = "real_of_int trading_days"
  let ?r = "last equity_curve / hd equity_curve"
  have n: "0 < ?n" using assms(1) by simp
  have t: "0 < ?t" using assms(4) by simp
  have years: "0 < ?n / ?t" using n t by simp
  have ex: "1 / (?n / ?t) = ?t / ?n" by simp
  have e0: "?t / ?n \<noteq> 0" "0 < ?t / ?n" using n t by simp_all
  have tr: "total_return equity_curve = Inr (Num (?r - 1))"
    using assms(1,2) by (simp add: total_return_def np_sub_def)
  have base: "np_add (Num 1) (Num (?r - 1)) = Num (1 + (?r - 1))" by simp
  have pw: "np_power (Num (1 + (?r - 1))) (?t / ?n) = Num ((1 + (?r - 1)) powr (?t / ?n))"
  proof (cases "?r = 0")
    case True
    then show ?thesis using e0 by simp
  next
    case False
    then have "0 < ?r" using assms(3) by linarith
    then have "0 < 1 + (?r - 1)" by linarith
    then show ?thesis using e0 by simp
  qed
  have "annual_return equity_curve trading_days =
      Inr (np_sub (np_power (np_add (Num 1) (Num (?r - 1))) (1 / (?n / ?t))) (Num 1))"
    using assms(4) years tr by (simp add: annual_return_def Let_def not_le)
  then show ?thesis unfolding ex base pw by (simp add: np_sub_def)
qed

lemma annual_return_empty:
  "trading_days \<noteq> 0 \<Longrightarrow> annual_return [] trading_days = Inl IndexError"
  by (simp add: annual_return_def total_return_def)

text \<open>
  Claim C6. For a curve of at least one bar \<open>annual_return\<close> is
  \<open>(1 + total_return) ^ (trading_days / n_bars) - 1\<close> (lemma \<open>annual_return_formula\<close>, for
  a nonzero first value and a last value of the same sign or zero). On the empty curve it does not
  return 0: \<open>total_return\<close> is called before the test \<open>years <= 0\<close>, and its \<open>iloc[-1]\<close>
  raises IndexError.
\<close>

theorem annual_return_empty_raises:
  "annual_return [] 252 = Inl IndexError"
  by (simp add: annual_return_def total_return_def)

subsection \<open>sharpe_ratio and sortino_ratio\<close>

lemma np_sum_zeros: "np_sum (replicate n (Num 0)) = Num 0"
  by (induction n) simp_all

lemma dropna_zeros: "dropna (replicate n (Num 0)) = replicate n (Num 0)"
  by (simp add: dropna_def)

lemma map2_replicate_same:
  "map (\<lambda>(prev, cur). f prev cur) (zip (c # replicate k c) (replicate k c)) = replicate k (f c c)"
proof (induction k)
  case 0
  then show ?case by simp
next
  case (Suc k)
  then show ?case by simp
qed

lemma np_div_NaN_right: "np_div x NaN = NaN"
  by (cases x) simp_all

lemma calculate_returns_flat:
  assumes "c \<noteq> 0"
  shows "calculate_returns (replicate n c) = replicate n (Num 0)"
proof (cases n)
  case 0
  then show ?thesis by (simp add: calculate_returns_def pct_change_def fillna_def)
next
  case (Suc k)
  have "pct_change (replicate (Suc k) c) =
      NaN # replicate k (np_sub (np_div (Num c) (Num c)) (Num 1))"
    by (simp add: pct_change_def map2_replicate_same del: np_div.simps)
  also have "np_sub (np_div (Num c) (Num c)) (Num 1) = Num 0"
    using assms by (simp add: np_sub_def)
  finally have "pct_change (replicate (Suc k) c) = NaN # replicate k (Num 0)" .
  then show ?thesis using Suc by (simp add: calculate_returns_def fillna_def)
qed

lemma pd_std_zeros:
  assumes "2 \<le> n"
  shows "pd_std (replicate n (Num 0)) = Num 0"
proof -
  have n: "real n \<noteq> 0" "real (n - 1) \<noteq> 0" "\<not> n < 2" using assms by simp_all
  have avg: "np_div (np_sum (replicate n (Num 0))) (Num (real n)) = Num 0"
    using n by (simp add: np_sum_zeros)
  show ?thesis
    unfolding pd_std_def dropna_zeros Let_def length_replicate avg
    using n by (simp add: np_sub_def np_sum_zeros)
qed

lemma pd_std_single: "x \<noteq> NaN \<Longrightarrow> pd_std [x] = NaN"
  by (simp add: pd_std_def dropna_def)

lemma sharpe_ratio_flat:
  assumes "c \<noteq> 0" "2 \<le> n" "trading_days \<noteq> 0"
  shows "sharpe_ratio (replicate n c) risk_free_rate trading_days = Inr (Num 0)"
  using assms by (simp add: sharpe_ratio_def calculate_returns_flat pd_std_zeros Let_def)

lemma sortino_ratio_flat:
  assumes "c \<noteq> 0" "trading_days \<noteq> 0"
  shows "sortino_ratio (replicate n c) risk_free_rate trading_days = Inr (Num 0)"
  using assms by (simp add: sortino_ratio_def calculate_returns_flat Let_def)

lemma sharpe_ratio_single:
  assumes "trading_days \<noteq> 0"
  shows "sharpe_ratio [c] risk_free_rate trading_days = Inr NaN"
proof -
  have r: "calculate_returns [c] = [Num 0]"
    by (simp add: calculate_returns_def pct_change_def fillna_def)
  have s: "pd_std [Num 0] = NaN" by (rule pd_std_single) simp
  show ?thesis using assms by (simp add: sharpe_ratio_def r s Let_def np_div_NaN_right)
qed

text \<open>
  Claim C7. On a constant curve of a nonzero value \<open>sortino_ratio\<close> is 0 for every length
  (lemma \<open>sortino_ratio_flat\<close>) and \<open>sharpe_ratio\<close> is 0 for at least two points (lemma
  \<open>sharpe_ratio_flat\<close>). On a curve of one point \<open>sharpe_ratio\<close> is not 0: the sample
  standard deviation of the single return is NaN, the test \<open>returns.std() == 0\<close> fails, and
  the quotient is NaN.
\<close>

theorem sharpe_ratio_single_point_nan:
  "sharpe_ratio [100] (2 / 100) 252 = Inr NaN"
  by (rule sharpe_ratio_single) simp

subsection \<open>profit_factor\<close>

lemma sum_list_neg:
  fixes xs :: "real list"
  shows "xs \<noteq> [] \<Longrightarrow> (\<And>x. x \<in> set xs \<Longrightarrow> x < 0) \<Longrightarrow> sum_list xs < 0"
proof (induction xs)
  case Nil
  then show ?case by simp
next
  case (Cons x xs)
  have x: "x < 0" using Cons.prems(2) by simp
  show ?case
  proof (cases "xs = []")
    case True
    then show ?thesis using x by simp
  next
    case False
    then have "sum_list xs < 0" using Cons.IH Cons.prems(2) by simp
    then show ?thesis using x by simp
  qed
qed

lemma sum_list_pos_strict:
  fixes xs :: "real list"
  shows "xs \<noteq> [] \<Longrightarrow> (\<And>x. x \<in> set xs \<Longrightarrow> 0 < x) \<Longrightarrow> 0 < sum_list xs"
proof (induction xs)
  case Nil
  then show ?case by simp
next
  case (Cons x xs)
  have x: "0 < x" using Cons.prems(2) by simp
  show ?case
  proof (cases "xs = []")
    case True
    then show ?thesis using x by simp
  next
    case False
    then have "0 < sum_list xs" using Cons.IH Cons.prems(2) by simp
    then show ?thesis using x by simp
  qed
qed

lemma set_pnl_where:
  "set (pnl_where c trades) = {p. \<exists>t \<in> set trades. pnl t = Some p \<and> c p}"
  by (auto simp: pnl_where_def split: option.splits if_splits)

lemma pnl_where_Nil_iff:
  "pnl_where c trades = [] \<longleftrightarrow> \<not> (\<exists>t \<in> set trades. \<exists>p. pnl t = Some p \<and> c p)"
proof -
  have "pnl_where c trades = [] \<longleftrightarrow> set (pnl_where c trades) = {}" by simp
  also have "\<dots> \<longleftrightarrow> \<not> (\<exists>t \<in> set trades. \<exists>p. pnl t = Some p \<and> c p)"
    unfolding set_pnl_where by blast
  finally show ?thesis .
qed

lemma sum_pnl_where:
  "sum_list (pnl_where c trades) =
     (\<Sum>t\<leftarrow>filter (\<lambda>t. case pnl t of None \<Rightarrow> False | Some p \<Rightarrow> c p) trades. the (pnl t))"
  by (induction trades) (auto simp: pnl_where_def split: option.splits)

lemma profit_factor_no_winner_no_loser:
  "\<not> (\<exists>t \<in> set trades. \<exists>p. pnl t = Some p \<and> p \<noteq> 0) \<Longrightarrow> profit_factor trades = Num 0"
proof -
  assume a: "\<not> (\<exists>t \<in> set trades. \<exists>p. pnl t = Some p \<and> p \<noteq> 0)"
  then have "pnl_where (\<lambda>p. p < 0) trades = []" "pnl_where (\<lambda>p. 0 < p) trades = []"
    by (auto simp: pnl_where_Nil_iff)
  then show ?thesis by (simp add: profit_factor_def Let_def)
qed

text \<open>
  Claim C8. When the ledger has a losing trade, \<open>profit_factor\<close> is the sum of the
  positive pnl values over the absolute value of the sum of the negative ones; with a
  winning trade and no losing trade it is plus infinity; on the empty ledger it is 0.
\<close>

theorem profit_factor_spec:
  "((\<exists>t \<in> set trades. \<exists>p. pnl t = Some p \<and> p < 0) \<longrightarrow>
      profit_factor trades =
        Num ((\<Sum>t\<leftarrow>filter (\<lambda>t. case pnl t of None \<Rightarrow> False | Some p \<Rightarrow> 0 < p) trades. the (pnl t))
             / \<bar>\<Sum>t\<leftarrow>filter (\<lambda>t. case pnl t of None \<Rightarrow> False | Some p \<Rightarrow> p < 0) trades. the (pnl t)\<bar>))
   \<and> ((\<exists>t \<in> set trades. \<exists>p. pnl t = Some p \<and> 0 < p)
        \<and> \<not> (\<exists>t \<in> set trades. \<exists>p. pnl t = Some p \<and> p < 0) \<longrightarrow>
      profit_factor trades = PInf)
   \<and> profit_factor [] = Num 0"
proof (intro conjI impI)
  assume l: "\<exists>t \<in> set trades. \<exists>p. pnl t = Some p \<and> p < 0"
  then have ne: "pnl_where (\<lambda>p. p < 0) trades \<noteq> []" by (simp add: pnl_where_Nil_iff)
  have "sum_list (pnl_where (\<lambda>p. p < 0) trades) < 0"
    using ne by (rule sum_list_neg) (simp add: set_pnl_where)
  then have gl: "\<bar>sum_list (pnl_where (\<lambda>p. p < 0) trades)\<bar> \<noteq> 0" by simp
  have t: "trades \<noteq> []" using l by auto
  have "profit_factor trades =
      Num (sum_list (pnl_where (\<lambda>p. 0 < p) trades) / \<bar>sum_list (pnl_where (\<lambda>p. p < 0) trades)\<bar>)"
    using gl t by (simp add: profit_factor_def Let_def)
  then show "profit_factor trades =
        Num ((\<Sum>t\<leftarrow>filter (\<lambda>t. case pnl t of None \<Rightarrow> False | Some p \<Rightarrow> 0 < p) trades. the (pnl t))
             / \<bar>\<Sum>t\<leftarrow>filter (\<lambda>t. case pnl t of None \<Rightarrow> False | Some p \<Rightarrow> p < 0) trades. the (pnl t)\<bar>)"
    by (simp only: sum_pnl_where)
next
  assume a: "(\<exists>t \<in> set trades. \<exists>p. pnl t = Some p \<and> 0 < p)
        \<and> \<not> (\<exists>t \<in> set trades. \<exists>p. pnl t = Some p \<and> p < 0)"
  then have e: "pnl_where (\<lambda>p. p < 0) trades = []" by (simp add: pnl_where_Nil_iff)
  from a have ne: "pnl_where (\<lambda>p. 0 < p) trades \<noteq> []" by (simp add: pnl_where_Nil_iff)
  have gp: "0 < sum_list (pnl_where (\<lambda>p. 0 < p) trades)"
    using ne by (rule sum_list_pos_strict) (simp add: set_pnl_where)
  have t: "trades \<noteq> []" using a by auto
  show "profit_factor trades = PInf"
    using e gp t by (simp add: profit_factor_def Let_def)
next
  show "profit_factor [] = Num 0" by (simp add: profit_factor_def)
qed

theorem profit_factor_spec_witness:
  "profit_factor [example_trade (Some 3), example_trade (Some (- 2)), example_trade None,
                  example_trade (Some 1)] = Num 2
   \<and> profit_factor [example_trade (Some 3), example_trade (Some 0)] = PInf"
proof -
  have a: "profit_factor [example_trade (Some 3), example_trade (Some (- 2)), example_trade None,
                  example_trade (Some 1)] = Num 2"
    using profit_factor_spec [of "[example_trade (Some 3), example_trade (Some (- 2)),
       example_trade None, example_trade (Some 1)]"]
    by (simp add: example_trade_def)
  have b: "profit_factor [example_trade (Some 3), example_trade (Some 0)] = PInf"
    using profit_factor_spec [of "[example_trade (Some 3), example_trade (Some 0)]"]
    by (simp add: example_trade_def)
  show ?thesis using a b by simp
qed

subsection \<open>max_consecutive\<close>

lemma streak_loop_ge: "m \<le> streak_loop rs m c"
proof (induction rs arbitrary: m c)
  case Nil
  then show ?case by simp
next
  case (Cons r rs)
  show ?case
  proof (cases r)
    case True
    have "m \<le> max m (c + 1)" by simp
    also have "\<dots> \<le> streak_loop rs (max m (c + 1)) (c + 1)" by (rule Cons.IH)
    finally show ?thesis using True by simp
  next
    case False
    then show ?thesis using Cons.IH [of m 0] by simp
  qed
qed

lemma sublist_snoc_iff:
  "sublist xs (ys @ [y]) \<longleftrightarrow> sublist xs ys \<or> suffix xs (ys @ [y])"
proof
  assume "sublist xs (ys @ [y])"
  then obtain ps ss where e: "ys @ [y] = ps @ xs @ ss" by (auto simp: sublist_def)
  show "sublist xs ys \<or> suffix xs (ys @ [y])"
  proof (cases ss rule: rev_cases)
    case Nil
    then have "suffix xs (ys @ [y])" using e by (simp add: suffix_def)
    then show ?thesis ..
  next
    case (snoc ss' z)
    then have "ys = ps @ xs @ ss'" using e by simp
    then have "sublist xs ys" by (auto simp: sublist_def)
    then show ?thesis ..
  qed
next
  assume "sublist xs ys \<or> suffix xs (ys @ [y])"
  then show "sublist xs (ys @ [y])"
  proof
    assume "sublist xs ys"
    then obtain ps ss where "ys = ps @ xs @ ss" by (auto simp: sublist_def)
    then have "ys @ [y] = ps @ xs @ (ss @ [y])" by simp
    then show ?thesis unfolding sublist_def by blast
  next
    assume "suffix xs (ys @ [y])"
    then show ?thesis by (rule suffix_imp_sublist)
  qed
qed

lemma suffix_replicate_snoc_True:
  "suffix (replicate k True) (pre @ [True]) \<longleftrightarrow> k = 0 \<or> (\<exists>j. k = Suc j \<and> suffix (replicate j True) pre)"
proof (cases k)
  case 0
  then show ?thesis by simp
next
  case (Suc j)
  have "replicate (Suc j) True = replicate j True @ [True]"
    by (simp add: replicate_append_same)
  then show ?thesis using Suc by simp
qed

lemma suffix_replicate_snoc_False:
  "suffix (replicate k True) (pre @ [False]) \<longleftrightarrow> k = 0"
proof (cases k)
  case 0
  then show ?thesis by simp
next
  case (Suc j)
  have "replicate (Suc j) True = replicate j True @ [True]"
    by (simp add: replicate_append_same)
  then show ?thesis using Suc by simp
qed

lemma streak_loop_attained:
  "sublist (replicate m True) pre \<Longrightarrow> suffix (replicate c True) pre
     \<Longrightarrow> sublist (replicate (streak_loop rs m c) True) (pre @ rs)"
proof (induction rs arbitrary: pre m c)
  case Nil
  then show ?case by simp
next
  case (Cons r rs)
  show ?case
  proof (cases r)
    case True
    have c': "suffix (replicate (c + 1) True) (pre @ [True])"
      by (rule iffD2 [OF suffix_replicate_snoc_True]) (use Cons.prems(2) in simp)
    have m': "sublist (replicate (max m (c + 1)) True) (pre @ [True])"
    proof (cases "m \<le> c + 1")
      case True
      then show ?thesis using c' by (simp add: max_absorb2 suffix_imp_sublist)
    next
      case False
      then have "max m (c + 1) = m" by simp
      then show ?thesis using Cons.prems(1) by (simp add: sublist_snoc_iff)
    qed
    from Cons.IH [OF m' c'] show ?thesis using True by simp
  next
    case False
    have c': "suffix (replicate 0 True) (pre @ [False])" by simp
    have m': "sublist (replicate m True) (pre @ [False])"
      using Cons.prems(1) by (simp add: sublist_snoc_iff)
    from Cons.IH [OF m' c'] show ?thesis using False by simp
  qed
qed

lemma streak_loop_upper:
  "(\<And>k. sublist (replicate k True) pre \<Longrightarrow> k \<le> m)
     \<Longrightarrow> (\<And>k. suffix (replicate k True) pre \<Longrightarrow> k \<le> c)
     \<Longrightarrow> sublist (replicate k True) (pre @ rs) \<Longrightarrow> k \<le> streak_loop rs m c"
proof (induction rs arbitrary: pre m c)
  case Nil
  then show ?case by simp
next
  case (Cons r rs)
  show ?case
  proof (cases r)
    case True
    have s: "j \<le> c + 1" if "suffix (replicate j True) (pre @ [True])" for j
    proof -
      from that have "j = 0 \<or> (\<exists>i. j = Suc i \<and> suffix (replicate i True) pre)"
        by (rule iffD1 [OF suffix_replicate_snoc_True])
      then show ?thesis
      proof
        assume "j = 0" then show ?thesis by simp
      next
        assume "\<exists>i. j = Suc i \<and> suffix (replicate i True) pre"
        then obtain i where i: "j = Suc i" "suffix (replicate i True) pre" by blast
        from Cons.prems(2) [OF i(2)] show ?thesis using i(1) by simp
      qed
    qed
    have m: "j \<le> max m (c + 1)" if "sublist (replicate j True) (pre @ [True])" for j
    proof -
      from that have "sublist (replicate j True) pre \<or> suffix (replicate j True) (pre @ [True])"
        by (rule iffD1 [OF sublist_snoc_iff])
      then show ?thesis
      proof
        assume "sublist (replicate j True) pre"
        then have "j \<le> m" by (rule Cons.prems(1))
        then show ?thesis by simp
      next
        assume "suffix (replicate j True) (pre @ [True])"
        then have "j \<le> c + 1" by (rule s)
        then show ?thesis by simp
      qed
    qed
    have "sublist (replicate k True) ((pre @ [True]) @ rs)"
      using Cons.prems(3) True by simp
    from Cons.IH [OF m s this] show ?thesis using True by simp
  next
    case False
    have s: "j \<le> 0" if "suffix (replicate j True) (pre @ [False])" for j
      using iffD1 [OF suffix_replicate_snoc_False that] by simp
    have m: "j \<le> m" if "sublist (replicate j True) (pre @ [False])" for j
    proof -
      from that have "sublist (replicate j True) pre \<or> suffix (replicate j True) (pre @ [False])"
        by (rule iffD1 [OF sublist_snoc_iff])
      then show ?thesis
      proof
        assume "sublist (replicate j True) pre"
        then show ?thesis by (rule Cons.prems(1))
      next
        assume "suffix (replicate j True) (pre @ [False])"
        then show ?thesis using s by fastforce
      qed
    qed
    have "sublist (replicate k True) ((pre @ [False]) @ rs)"
      using Cons.prems(3) False by simp
    from Cons.IH [OF m s this] show ?thesis using False by simp
  qed
qed

lemma streak_loop_longest_run:
  "sublist (replicate (streak_loop rs 0 0) True) rs
   \<and> (\<forall>k. sublist (replicate k True) rs \<longrightarrow> k \<le> streak_loop rs 0 0)"
proof
  show "sublist (replicate (streak_loop rs 0 0) True) rs"
    using streak_loop_attained [of 0 "[]" 0 rs] by simp
  show "\<forall>k. sublist (replicate k True) rs \<longrightarrow> k \<le> streak_loop rs 0 0"
  proof (intro allI impI)
    fix k assume "sublist (replicate k True) rs"
    then have "sublist (replicate k True) ([] @ rs)" by simp
    then show "k \<le> streak_loop rs 0 0"
      by (rule streak_loop_upper [of "[]" 0 0, rotated 2]) simp_all
  qed
qed

text \<open>
  Claim C10. For the loss streak (\<open>win = False\<close>) a trade counts exactly when its pnl is
  at most 0, so a trade with pnl 0 extends the current loss streak and, for the win streak,
  resets it. For every ledger the result is the length of the longest run of consecutive
  counted trades: a run of that length occurs in the column \<open>results\<close> and no longer one
  does. It is 0 on the empty ledger.
\<close>

theorem max_consecutive_spec:
  "(streak_result False t \<longleftrightarrow> (\<exists>p. pnl t = Some p \<and> p \<le> 0))
   \<and> (pnl t = Some 0 \<longrightarrow>
        streak_loop (streak_result False t # rs) m c = streak_loop rs (max m (c + 1)) (c + 1)
        \<and> streak_loop (streak_result True t # rs) m c = streak_loop rs m 0)
   \<and> sublist (replicate (max_consecutive trades win) True) (map (streak_result win) trades)
   \<and> (\<forall>k. sublist (replicate k True) (map (streak_result win) trades)
          \<longrightarrow> k \<le> max_consecutive trades win)
   \<and> max_consecutive [] win = 0"
proof -
  have a: "streak_result False t \<longleftrightarrow> (\<exists>p. pnl t = Some p \<and> p \<le> 0)"
    by (simp add: streak_result_def split: option.splits)
  have b: "pnl t = Some 0 \<longrightarrow>
        streak_loop (streak_result False t # rs) m c = streak_loop rs (max m (c + 1)) (c + 1)
        \<and> streak_loop (streak_result True t # rs) m c = streak_loop rs m 0"
    by (simp add: streak_result_def)
  have e: "max_consecutive trades win = streak_loop (map (streak_result win) trades) 0 0"
    by (cases trades) (simp_all add: max_consecutive_def)
  have c: "sublist (replicate (max_consecutive trades win) True) (map (streak_result win) trades)"
    unfolding e using streak_loop_longest_run by blast
  have d: "\<forall>k. sublist (replicate k True) (map (streak_result win) trades)
          \<longrightarrow> k \<le> max_consecutive trades win"
    unfolding e using streak_loop_longest_run by blast
  have f: "max_consecutive [] win = 0" by (simp add: max_consecutive_def)
  show ?thesis using a b c d f by blast
qed

theorem max_consecutive_spec_witness:
  "max_consecutive [example_trade (Some 5), example_trade (Some 2), example_trade (Some 3),
      example_trade (Some (- 1)), example_trade (Some 0), example_trade (Some 7)] False = 2
   \<and> max_consecutive [example_trade (Some 5), example_trade (Some 2), example_trade (Some 3),
      example_trade (Some (- 1)), example_trade (Some 0), example_trade (Some 7)] True = 3
   \<and> streak_loop (streak_result False (example_trade (Some 0)) # []) 1 1 = 2
   \<and> streak_loop (streak_result True (example_trade (Some 0)) # []) 1 1 = 1"
proof -
  let ?l = "[example_trade (Some 5), example_trade (Some 2), example_trade (Some 3),
      example_trade (Some (- 1)), example_trade (Some 0), example_trade (Some 7)]"
  have r: "map (streak_result False) ?l = [False, False, False, True, True, False]"
    "map (streak_result True) ?l = [True, True, True, False, False, True]"
    by (simp_all add: streak_result_def example_trade_def)
  have s2: "sublist (replicate 2 True) [False, False, False, True, True, False]"
    using sublist_appendI [of "[True, True]" "[False, False, False]" "[False]"]
    by (simp add: numeral_2_eq_2)
  have s3: "sublist (replicate 3 True) [True, True, True, False, False, True]"
    using sublist_appendI [of "[True, True, True]" "[]" "[False, False, True]"]
    by (simp add: numeral_3_eq_3)
  have e: "max_consecutive ?l w = streak_loop (map (streak_result w) ?l) 0 0" for w
    by (simp add: max_consecutive_def)
  have f: "max_consecutive ?l False \<le> 2" "max_consecutive ?l True \<le> 3"
    unfolding e r by simp_all
  have a: "max_consecutive ?l False = 2"
    using max_consecutive_spec [of "example_trade (Some 0)" "[]" 1 1 ?l False] s2 f(1)
    unfolding r by (metis le_antisym)
  have b: "max_consecutive ?l True = 3"
    using max_consecutive_spec [of "example_trade (Some 0)" "[]" 1 1 ?l True] s3 f(2)
    unfolding r by (metis le_antisym)
  have c: "streak_loop (streak_result False (example_trade (Some 0)) # []) 1 1 = 2
     \<and> streak_loop (streak_result True (example_trade (Some 0)) # []) 1 1 = 1"
    using max_consecutive_spec [of "example_trade (Some 0)" "[]" 1 1 ?l True]
    by (simp add: example_trade_def)
  show ?thesis using a b c by simp
qed

section \<open>Properties of MeanReversionStrategy\<close>




















section \<open>Properties of the frontend API client\<close>

lemma map_points_length: "length (map_points pk ps) = length ps"
  by (induction ps arbitrary: pk) (simp_all add: Let_def)

lemma map_points_nth:
  "i < length ps \<Longrightarrow>
     map_points pk ps ! i =
       \<lparr>date = timestamp (ps ! i), equity = raw_equity (ps ! i),
        drawdown =
          (if Max (insert pk (raw_equity ` set (take (Suc i) ps))) > 0
           then (raw_equity (ps ! i) - Max (insert pk (raw_equity ` set (take (Suc i) ps))))
                  / Max (insert pk (raw_equity ` set (take (Suc i) ps)))
           else 0)\<rparr>"
proof (induction ps arbitrary: pk i)
  case Nil
  then show ?case by simp
next
  case (Cons p ps)
  let ?pk' = "if raw_equity p > pk then raw_equity p else pk"
  have pk': "?pk' = max pk (raw_equity p)" by (simp add: max_def)
  show ?case
  proof (cases i)
    case 0
    have "Max (insert pk (raw_equity ` set (take (Suc 0) (p # ps)))) = max pk (raw_equity p)"
      by simp
    then show ?thesis using 0 pk' by (simp add: Let_def)
  next
    case (Suc j)
    then have j: "j < length ps" using Cons.prems by simp
    let ?S = "raw_equity ` set (take (Suc j) ps)"
    have fin: "finite ?S" by simp
    have "Max (insert pk (raw_equity ` set (take (Suc i) (p # ps)))) = Max (insert pk (insert (raw_equity p) ?S))"
      using Suc by simp
    also have "\<dots> = Max (insert (max pk (raw_equity p)) ?S)"
    proof (cases "?S = {}")
      case True
      then show ?thesis by simp
    next
      case False
      then show ?thesis using fin by (simp add: max.assoc)
    qed
    finally have m: "Max (insert pk (raw_equity ` set (take (Suc i) (p # ps)))) = Max (insert ?pk' ?S)"
      using pk' by simp
    have "map_points pk (p # ps) ! i = map_points ?pk' ps ! j"
      using Suc by (simp add: Let_def)
    also note Cons.IH [OF j, of ?pk']
    finally show ?thesis unfolding m using Suc by simp
  qed
qed

lemma hd_in_take: "xs \<noteq> [] \<Longrightarrow> hd xs \<in> set (take (Suc i) xs)"
  by (cases xs) simp_all

lemma nth_in_take: "i < length xs \<Longrightarrow> xs ! i \<in> set (take (Suc i) xs)"
  by (metis in_set_conv_nth length_take lessI min_less_iff_conj nth_take)

text \<open>
  Claim C9. For a non-empty curve, point \<open>i\<close> of the result has the date and the equity
  of point \<open>i\<close> of the response, and its drawdown is \<open>(equity - peak) / peak\<close> for the
  running peak, the largest equity of the points up to and including \<open>i\<close>, and 0 when that
  peak is not positive. Every drawdown is at most 0 and the first one is 0.
\<close>

theorem getBacktest_drawdown_spec:
  assumes "equity_curve_data \<noteq> []" "i < length equity_curve_data"
  shows "length (getBacktest_equity_curve equity_curve_data) = length equity_curve_data
    \<and> date (getBacktest_equity_curve equity_curve_data ! i) = timestamp (equity_curve_data ! i)
    \<and> equity (getBacktest_equity_curve equity_curve_data ! i) = raw_equity (equity_curve_data ! i)
    \<and> drawdown (getBacktest_equity_curve equity_curve_data ! i) =
        (if Max (raw_equity ` set (take (Suc i) equity_curve_data)) > 0
         then (raw_equity (equity_curve_data ! i)
                 - Max (raw_equity ` set (take (Suc i) equity_curve_data)))
              / Max (raw_equity ` set (take (Suc i) equity_curve_data))
         else 0)
    \<and> drawdown (getBacktest_equity_curve equity_curve_data ! i) \<le> 0
    \<and> drawdown (getBacktest_equity_curve equity_curve_data ! 0) = 0"
proof -
  let ?d = equity_curve_data
  let ?out = "getBacktest_equity_curve ?d"
  have out: "?out = map_points (raw_equity (hd ?d)) ?d"
    using assms(1) by (cases ?d) (simp_all add: getBacktest_equity_curve_def)
  have ins: "insert (raw_equity (hd ?d)) (raw_equity ` set (take (Suc k) ?d))
      = raw_equity ` set (take (Suc k) ?d)" for k
    using hd_in_take [OF assms(1), of k] by blast
  have nth: "?out ! k =
       \<lparr>date = timestamp (?d ! k), equity = raw_equity (?d ! k),
        drawdown =
          (if Max (raw_equity ` set (take (Suc k) ?d)) > 0
           then (raw_equity (?d ! k) - Max (raw_equity ` set (take (Suc k) ?d)))
                  / Max (raw_equity ` set (take (Suc k) ?d))
           else 0)\<rparr>" if "k < length ?d" for k
    unfolding out using map_points_nth [OF that, of "raw_equity (hd ?d)"] by (simp only: ins)
  have len: "length ?out = length ?d" unfolding out by (rule map_points_length)
  have le: "raw_equity (?d ! i) \<le> Max (raw_equity ` set (take (Suc i) ?d))"
    using nth_in_take [OF assms(2)] by (intro Max_ge) auto
  have neg: "drawdown (?out ! i) \<le> 0"
    using le by (simp add: nth [OF assms(2)] divide_nonpos_pos)
  have z: "0 < length ?d" using assms(1) by simp
  have t1: "take (Suc 0) ?d = [?d ! 0]" using assms(1) by (cases ?d) simp_all
  have first: "drawdown (?out ! 0) = 0"
    by (simp add: nth [OF z] t1)
  show ?thesis using len neg first by (simp add: nth [OF assms(2)])
qed

theorem getBacktest_drawdown_spec_witness:
  "[example_point 100, example_point 80, example_point 120, example_point 90] \<noteq> [] \<and> (3::nat) < length [example_point 100, example_point 80, example_point 120, example_point 90]
   \<and> drawdown (getBacktest_equity_curve [example_point 100, example_point 80, example_point 120, example_point 90] ! 3) = (90 - 120) / 120
   \<and> drawdown (getBacktest_equity_curve [example_point 100, example_point 80, example_point 120, example_point 90] ! 3) \<le> 0
   \<and> drawdown (getBacktest_equity_curve [example_point 100, example_point 80, example_point 120, example_point 90] ! 0) = 0"
  using getBacktest_drawdown_spec [of "[example_point 100, example_point 80, example_point 120, example_point 90]" 3]
  by (simp add: example_point_def)

end
